theory Spec2Isabelle
  imports Main "HOL-Library.Char_ord" "HOL-Library.List_Lexorder"
begin

section \<open>Pipable: the query orchestrator of pipable/pipable.py\<close>

text \<open>
  The class \<^verbatim>\<open>Pipable\<close> owns a connection flag and a cache of rendered
  \<^verbatim>\<open>CREATE TABLE\<close> statements, and talks to two collaborators: a database
  connector (\<^verbatim>\<open>connect\<close>, \<^verbatim>\<open>disconnect\<close>, \<^verbatim>\<open>execute_query\<close>) and a
  language-model client (\<^verbatim>\<open>generate_text\<close>).  The model below passes the
  object's fields explicitly, returns every raised exception as a value, and
  records each collaborator call in a trace.
\<close>

subsection \<open>Exceptions\<close>

text \<open>
  An exception is its class and the text \<^verbatim>\<open>str(e)\<close> gives.  Only instances of
  \<^verbatim>\<open>Exception\<close> are modelled: those are what the \<^verbatim>\<open>except Exception\<close>
  handlers of the source catch.
\<close>

datatype exn_kind = Exception | ConnectionError | ValueError | NameError | KeyError
  | Other string

datatype exn = Exn (kind: exn_kind) (message: string)

subsection \<open>Strings\<close>

text \<open>\<^verbatim>\<open>sep.join(xs)\<close>\<close>

fun str_join :: "string \<Rightarrow> string list \<Rightarrow> string" where
  "str_join sep [] = []"
| "str_join sep [x] = x"
| "str_join sep (x # y # ys) = x @ sep @ str_join sep (y # ys)"

text \<open>
  A string is the sequence of its code points, each below 256.
  \<^verbatim>\<open>str.isspace\<close> on one such character: tab, line feed, vertical tab, form
  feed, carriage return, the four separators 0x1C to 0x1F, the space, the next
  line control 0x85 and the no-break space 0xA0.  These are the characters
  \<^verbatim>\<open>str.strip()\<close> removes.
\<close>

definition isspace :: "char \<Rightarrow> bool" where
  "isspace c = (c \<in> set [CHR 0x09, CHR 0x0A, CHR 0x0B, CHR 0x0C, CHR 0x0D,
                          CHR 0x1C, CHR 0x1D, CHR 0x1E, CHR 0x1F, CHR 0x20,
                          CHR 0x85, CHR 0xA0])"

text \<open>\<^verbatim>\<open>s.strip()\<close>\<close>

definition strip :: "string \<Rightarrow> string" where
  "strip s = rev (dropWhile isspace (rev (dropWhile isspace s)))"

subsection \<open>Tabular results\<close>

text \<open>
  A \<^verbatim>\<open>DataFrame\<close> is its column labels and its rows, each row the cells in
  column order.  Cells are strings, as the catalog columns read by the source
  are, so every column has the dtype \<^verbatim>\<open>object\<close>.  The column labels of a
  frame are distinct.
\<close>

datatype dataframe = DataFrame (columns: "string list") (rows: "string list list")

text \<open>\<^verbatim>\<open>row[name]\<close>: a missing label raises \<^verbatim>\<open>KeyError\<close>.\<close>

definition getitem :: "string list \<Rightarrow> string list \<Rightarrow> string \<Rightarrow> exn + string" where
  "getitem cols row name =
     (case map_of (zip cols row) name of
        None \<Rightarrow> Inl (Exn KeyError ([CHR 0x27] @ name @ [CHR 0x27]))
      | Some v \<Rightarrow> Inr v)"

text \<open>Evaluating a list of computations in order; the first exception ends it.\<close>

fun sequence :: "(exn + 'a) list \<Rightarrow> exn + 'a list" where
  "sequence [] = Inr []"
| "sequence (Inl e # xs) = Inl e"
| "sequence (Inr v # xs) = (case sequence xs of Inl e \<Rightarrow> Inl e | Inr vs \<Rightarrow> Inr (v # vs))"

text \<open>The f-string \<^verbatim>\<open>f"{row['column_name']} {row['data_type']}"\<close>.\<close>

definition render_row :: "string list \<Rightarrow> string list \<Rightarrow> exn + string" where
  "render_row cols row =
     (case getitem cols row ''column_name'' of
        Inl e \<Rightarrow> Inl e
      | Inr c \<Rightarrow> (case getitem cols row ''data_type'' of
                    Inl e \<Rightarrow> Inl e
                  | Inr d \<Rightarrow> Inr (c @ '' '' @ d)))"

text \<open>
  \<^verbatim>\<open>column_info_df.groupby("table_name").apply(lambda x: ", ".join([...]))\<close>
  followed by \<^verbatim>\<open>.items()\<close>: one pair per distinct table name, the names in
  ascending order (\<^verbatim>\<open>groupby\<close> sorts its keys), each with the rendered rows
  of that table in the order of the frame, joined by a comma and a space.
  A frame without the column \<^verbatim>\<open>table_name\<close> raises \<^verbatim>\<open>KeyError\<close>.

  A frame without rows has no groups, and there \<^verbatim>\<open>apply\<close> does not call the
  function: it returns an empty \<^verbatim>\<open>DataFrame\<close> with the columns of the frame
  instead of a \<^verbatim>\<open>Series\<close>.  The \<^verbatim>\<open>.items()\<close> of a \<^verbatim>\<open>DataFrame\<close> are its
  columns, each a pair of the label and the column as a \<^verbatim>\<open>Series\<close>, here an
  empty one, which the f-string of the source formats as
  \<^verbatim>\<open>Series([], Name: <label>, dtype: object)\<close>.
\<close>

definition empty_series_str :: "string \<Rightarrow> string" where
  "empty_series_str label = ''Series([], Name: '' @ label @ '', dtype: object)''"

definition group_rows :: "string list \<Rightarrow> string list list \<Rightarrow> string \<Rightarrow> string list list" where
  "group_rows cols rs t = filter (\<lambda>r. getitem cols r ''table_name'' = Inr t) rs"

definition apply_group :: "string list \<Rightarrow> string list list \<Rightarrow> string \<Rightarrow> exn + (string \<times> string)" where
  "apply_group cols rs t =
     (case sequence (map (render_row cols) (group_rows cols rs t)) of
        Inl e \<Rightarrow> Inl e
      | Inr parts \<Rightarrow> Inr (t, str_join '', '' parts))"

definition grouped_columns :: "dataframe \<Rightarrow> exn + (string \<times> string) list" where
  "grouped_columns df =
     (if ''table_name'' \<notin> set (columns df)
      then Inl (Exn KeyError ([CHR 0x27] @ ''table_name'' @ [CHR 0x27]))
      else if rows df = []
      then Inr (map (\<lambda>label. (label, empty_series_str label)) (columns df))
      else (case sequence (map (\<lambda>r. getitem (columns df) r ''table_name'') (rows df)) of
              Inl e \<Rightarrow> Inl e
            | Inr keys \<Rightarrow>
                sequence (map (apply_group (columns df) (rows df)) (sort (remdups keys)))))"

subsection \<open>Collaborators and the orchestrator's state\<close>

text \<open>
  Every call the orchestrator makes on a collaborator.  The question is
  optional (\<^verbatim>\<open>question=None\<close>).
\<close>

datatype call = DbConnect | DbDisconnect | DbExecuteQuery string
  | LlmGenerateText string "string option"

text \<open>
  A collaborator answers a call from the calls made before it, so it may keep
  any state of its own.  \<^verbatim>\<open>connect\<close> and \<^verbatim>\<open>disconnect\<close> return nothing or
  raise; \<^verbatim>\<open>execute_query\<close> returns a frame or raises; \<^verbatim>\<open>generate_text\<close>
  returns a string, or \<^verbatim>\<open>None\<close>, or raises.
\<close>

record collaborators =
  db_connect :: "call list \<Rightarrow> exn option"
  db_disconnect :: "call list \<Rightarrow> exn option"
  db_execute_query :: "call list \<Rightarrow> string \<Rightarrow> exn + dataframe"
  llm_generate_text :: "call list \<Rightarrow> string \<Rightarrow> string option \<Rightarrow> exn + string option"

text \<open>
  The fields \<^verbatim>\<open>connected\<close> and \<^verbatim>\<open>all_table_queries\<close> of the object, and
  the trace of collaborator calls so far, oldest first.
\<close>

record pipable =
  connected :: bool
  all_table_queries :: "string list option"
  calls :: "call list"

text \<open>The object \<^verbatim>\<open>__init__\<close> builds.\<close>

definition init :: pipable where
  "init = \<lparr>connected = False, all_table_queries = None, calls = []\<rparr>"

definition record_call :: "call \<Rightarrow> pipable \<Rightarrow> pipable" where
  "record_call k s = s\<lparr>calls := calls s @ [k]\<rparr>"

subsection \<open>connect and disconnect\<close>

definition connect :: "collaborators \<Rightarrow> pipable \<Rightarrow> (exn + unit) \<times> pipable" where
  "connect c s =
     (if \<not> connected s then
        (case db_connect c (calls s) of
           None \<Rightarrow> (Inr (), (record_call DbConnect s)\<lparr>connected := True\<rparr>)
         | Some e \<Rightarrow>
             (Inl (Exn ConnectionError ''Failed to connect to the database.''),
              record_call DbConnect s))
      else (Inr (), s))"

definition disconnect :: "collaborators \<Rightarrow> pipable \<Rightarrow> (exn + unit) \<times> pipable" where
  "disconnect c s =
     (if connected s then
        (case db_disconnect c (calls s) of
           None \<Rightarrow> (Inr (), (record_call DbDisconnect s)\<lparr>connected := False\<rparr>)
         | Some e \<Rightarrow>
             (Inl (Exn ConnectionError ''Failed to disconnect from the database.''),
              record_call DbDisconnect s))
      else (Inr (), s))"

subsection \<open>The schema context\<close>

definition where_clause :: "string list option \<Rightarrow> string" where
  "where_clause table_names =
     (case table_names of
        None \<Rightarrow> ''WHERE table_schema = 'public'' @ [CHR 0x27]
      | Some ts \<Rightarrow>
          (if length ts > 0
           then ''WHERE table_name IN ('' @
                  str_join '','' (map (\<lambda>table. [CHR 0x27] @ table @ [CHR 0x27]) ts) @ '')''
           else ''WHERE table_schema = 'public'' @ [CHR 0x27]))"

definition column_info_query :: "string list option \<Rightarrow> string" where
  "column_info_query table_names =
     ''\<newline>        SELECT table_name, column_name, data_type'' @
     ''\<newline>        FROM information_schema.columns'' @
     ''\<newline>        '' @ where_clause table_names @ '';'' @
     ''\<newline>        ''"

definition create_table :: "string \<times> string \<Rightarrow> string" where
  "create_table p = ''CREATE TABLE '' @ fst p @ '' ('' @ snd p @ '');''"

definition generate_create_table_statements ::
  "collaborators \<Rightarrow> string list option \<Rightarrow> pipable \<Rightarrow> (exn + string list) \<times> pipable" where
  "generate_create_table_statements c table_names s =
     (case all_table_queries s of
        Some q \<Rightarrow> (Inr q, s)
      | None \<Rightarrow>
          (let q = column_info_query table_names;
               s1 = record_call (DbExecuteQuery q) s;
               failed = (Inl (Exn ValueError ''Error generating CREATE TABLE statements.''), s1)
           in case db_execute_query c (calls s) q of
                Inl e \<Rightarrow> failed
              | Inr column_info_df \<Rightarrow>
                  (case grouped_columns column_info_df of
                     Inl e \<Rightarrow> failed
                   | Inr g \<Rightarrow>
                       (Inr (map create_table g),
                        s1\<lparr>all_table_queries := Some (map create_table g)\<rparr>))))"

subsection \<open>Query generation\<close>

text \<open>
  A falsy answer (\<^verbatim>\<open>None\<close> or the empty string) takes the branch that logs
  and raises.  The logged f-string reads a name \<^verbatim>\<open>e\<close> that is bound nowhere
  in the function or the module, so evaluating it raises \<^verbatim>\<open>NameError\<close>
  before the \<^verbatim>\<open>raise ValueError\<close> on the next line is reached.
\<close>

definition generate_sql_query ::
  "collaborators \<Rightarrow> string \<Rightarrow> string option \<Rightarrow> pipable \<Rightarrow> (exn + string) \<times> pipable" where
  "generate_sql_query c context question s =
     (let s1 = record_call (LlmGenerateText context question) s
      in case llm_generate_text c (calls s) context question of
           Inl e \<Rightarrow> (Inl e, s1)
         | Inr None \<Rightarrow> (Inl (Exn NameError ''name 'e' is not defined''), s1)
         | Inr (Some generated_text) \<Rightarrow>
             (if generated_text = []
              then (Inl (Exn NameError ''name 'e' is not defined''), s1)
              else (Inr (strip generated_text), s1)))"

subsection \<open>ask\<close>

definition ask_error :: "exn \<Rightarrow> exn" where
  "ask_error e = Exn Exception (''Error in 'ask' method: '' @ message e)"

definition ask ::
  "collaborators \<Rightarrow> string option \<Rightarrow> string list option \<Rightarrow> pipable
     \<Rightarrow> (exn + dataframe) \<times> pipable" where
  "ask c question table_names s =
     (case connect c s of
        (Inl e, s1) \<Rightarrow> (Inl (ask_error e), s1)
      | (Inr u, s1) \<Rightarrow>
          (case generate_create_table_statements c table_names s1 of
             (Inl e, s2) \<Rightarrow> (Inl (ask_error e), s2)
           | (Inr create_table_statements, s2) \<Rightarrow>
               (let context = str_join '' '' create_table_statements
                in case generate_sql_query c context question s2 of
                     (Inl e, s3) \<Rightarrow> (Inl (ask_error e), s3)
                   | (Inr sql_query, s3) \<Rightarrow>
                       (case db_execute_query c (calls s3) sql_query of
                          Inl e \<Rightarrow> (Inl (ask_error e), record_call (DbExecuteQuery sql_query) s3)
                        | Inr result_df \<Rightarrow>
                            (Inr result_df, record_call (DbExecuteQuery sql_query) s3)))))"

subsection \<open>Sequences of connect and disconnect calls\<close>

text \<open>
  A caller's sequence of \<^verbatim>\<open>connect()\<close> and \<^verbatim>\<open>disconnect()\<close> calls on one
  object.  A call that raises does not end the sequence: the caller goes on
  with the next one.  Each call is paired with whether it returned normally.
\<close>

datatype op = OpConnect | OpDisconnect

definition step :: "collaborators \<Rightarrow> op \<Rightarrow> pipable \<Rightarrow> (exn + unit) \<times> pipable" where
  "step c x s = (case x of OpConnect \<Rightarrow> connect c s | OpDisconnect \<Rightarrow> disconnect c s)"

fun run_ops :: "collaborators \<Rightarrow> op list \<Rightarrow> pipable \<Rightarrow> (op \<times> bool) list \<times> pipable" where
  "run_ops c [] s = ([], s)"
| "run_ops c (x # xs) s =
     (case step c x s of
        (r, s1) \<Rightarrow> (case run_ops c xs s1 of (rs, s2) \<Rightarrow> ((x, isl r = False) # rs, s2)))"

text \<open>
  The running balance of the specification: a successful connect adds one, a
  successful disconnect takes one away, and the balance is clamped to 0 and 1
  after every call; a call that raised leaves it as it is.
\<close>

fun balance :: "(op \<times> bool) list \<Rightarrow> int \<Rightarrow> int" where
  "balance [] b = b"
| "balance ((x, ok) # xs) b =
     balance xs (if ok then (case x of OpConnect \<Rightarrow> min 1 (b + 1)
                                      | OpDisconnect \<Rightarrow> max 0 (b - 1))
                 else b)"

subsection \<open>Catalog frames and the statements the specification expects\<close>

text \<open>
  The frame a connector returns for the catalog query: the three columns the
  query selects, one row per (table name, column name, data type).
\<close>

definition catalog_columns :: "string list" where
  "catalog_columns = [''table_name'', ''column_name'', ''data_type'']"

definition catalog_row :: "string \<times> string \<times> string \<Rightarrow> string list" where
  "catalog_row x = (case x of (t, col, ty) \<Rightarrow> [t, col, ty])"

definition catalog_frame :: "(string \<times> string \<times> string) list \<Rightarrow> dataframe" where
  "catalog_frame info = DataFrame catalog_columns (map catalog_row info)"

text \<open>
  The specification's rendering of one table:
  \<^verbatim>\<open>CREATE TABLE <table_name> (<col1> <type1>, <col2> <type2>, ...);\<close> with the
  columns of that table in catalog row order.
\<close>

definition spec_statement :: "(string \<times> string \<times> string) list \<Rightarrow> string \<Rightarrow> string" where
  "spec_statement info t =
     ''CREATE TABLE '' @ t @ '' ('' @
       str_join '', '' (map (\<lambda>(t', col, ty). col @ '' '' @ ty)
                            (filter (\<lambda>(t', col, ty). t' = t) info)) @
     '');''"

text \<open>
  The specification's filter: \<^verbatim>\<open>WHERE table_name IN ('t1','t2',...)\<close> for a
  non-empty list of names, \<^verbatim>\<open>WHERE table_schema = 'public'\<close> otherwise.
\<close>

definition quoted :: "string \<Rightarrow> string" where
  "quoted t = [CHR 0x27] @ t @ [CHR 0x27]"

definition spec_filter :: "string list option \<Rightarrow> string" where
  "spec_filter table_names =
     (case table_names of
        Some (t # ts) \<Rightarrow>
          ''WHERE table_name IN ('' @ quoted t @ concat (map (\<lambda>x. '','' @ quoted x) ts) @ '')''
      | _ \<Rightarrow> ''WHERE table_schema = '' @ quoted ''public'')"

subsection \<open>Concrete collaborators\<close>

text \<open>
  A connector that connects and disconnects without error, answers the
  catalog query for all public tables with the two columns of a table
  \<^verbatim>\<open>users\<close> and any other query with a one-cell frame, and a language model
  that answers every question with the same statement, padded with blanks.
\<close>

definition users_info :: "(string \<times> string \<times> string) list" where
  "users_info = [(''users'', ''id'', ''integer''), (''users'', ''name'', ''text'')]"

definition count_frame :: dataframe where
  "count_frame = DataFrame [''count''] [[''2'']]"

definition demo :: collaborators where
  "demo = \<lparr>db_connect = (\<lambda>h. None),
           db_disconnect = (\<lambda>h. None),
           db_execute_query = (\<lambda>h q. if q = column_info_query None
                                       then Inr (catalog_frame users_info)
                                       else Inr count_frame),
           llm_generate_text = (\<lambda>h context question.
                                  Inr (Some ''  SELECT COUNT(*) FROM users; ''))\<rparr>"

text \<open>The same collaborators with one of them failing.\<close>

definition refused :: exn where
  "refused = Exn (Other ''OperationalError'') ''connection refused''"

definition demo_no_connect :: collaborators where
  "demo_no_connect = demo\<lparr>db_connect := (\<lambda>h. Some refused)\<rparr>"

definition demo_no_disconnect :: collaborators where
  "demo_no_disconnect = demo\<lparr>db_disconnect := (\<lambda>h. Some refused)\<rparr>"

definition demo_no_catalog :: collaborators where
  "demo_no_catalog = demo\<lparr>db_execute_query := (\<lambda>h q. Inl refused)\<rparr>"

definition demo_empty_catalog :: collaborators where
  "demo_empty_catalog = demo\<lparr>db_execute_query := (\<lambda>h q. Inr (catalog_frame []))\<rparr>"

definition demo_llm_down :: collaborators where
  "demo_llm_down =
     demo\<lparr>llm_generate_text := (\<lambda>h context question. Inl (Exn (Other ''Timeout'') ''timed out''))\<rparr>"

definition demo_llm_empty :: collaborators where
  "demo_llm_empty = demo\<lparr>llm_generate_text := (\<lambda>h context question. Inr (Some []))\<rparr>"

definition demo_bad_sql :: collaborators where
  "demo_bad_sql =
     demo\<lparr>db_execute_query := (\<lambda>h q. if q = column_info_query None
                                      then Inr (catalog_frame users_info)
                                      else Inl (Exn (Other ''SyntaxError'') ''syntax error''))\<rparr>"

text \<open>The object after a successful \<^verbatim>\<open>connect()\<close> on a fresh one.\<close>

definition connected_init :: pipable where
  "connected_init = \<lparr>connected = True, all_table_queries = None, calls = [DbConnect]\<rparr>"

text \<open>
  The object after the first successful schema-context build with \<^const>\<open>demo\<close>,
  and after the language model has then been asked.
\<close>

definition users_cached :: pipable where
  "users_cached = \<lparr>connected = True,
         all_table_queries = Some [''CREATE TABLE users (id integer, name text);''],
         calls = [DbConnect, DbExecuteQuery (column_info_query None)]\<rparr>"

definition users_asked :: pipable where
  "users_asked = \<lparr>connected = True,
         all_table_queries = Some [''CREATE TABLE users (id integer, name text);''],
         calls = [DbConnect, DbExecuteQuery (column_info_query None),
                  LlmGenerateText ''CREATE TABLE users (id integer, name text);''
                    (Some ''how many users'')]\<rparr>"

text \<open>
  The object after a build, on a connected object, whose catalog query for a
  table \<^verbatim>\<open>missing\<close> returned the three columns and no rows.
\<close>

definition missing_cached :: pipable where
  "missing_cached = \<lparr>connected = True,
         all_table_queries =
           Some [''CREATE TABLE table_name (Series([], Name: table_name, dtype: object));'',
                 ''CREATE TABLE column_name (Series([], Name: column_name, dtype: object));'',
                 ''CREATE TABLE data_type (Series([], Name: data_type, dtype: object));''],
         calls = [DbConnect, DbExecuteQuery (column_info_query (Some [''missing'']))]\<rparr>"

section \<open>Properties\<close>

subsection \<open>Auxiliary facts\<close>

lemmas model_defs = connect_def disconnect_def record_call_def step_def
  generate_create_table_statements_def column_info_query_def where_clause_def
  grouped_columns_def getitem_def apply_group_def group_rows_def render_row_def
  create_table_def generate_sql_query_def strip_def isspace_def ask_error_def ask_def Let_def
  empty_series_str_def

lemmas demo_defs = demo_def demo_no_connect_def demo_no_disconnect_def demo_no_catalog_def
  demo_empty_catalog_def demo_llm_down_def demo_llm_empty_def demo_bad_sql_def refused_def
  users_info_def count_frame_def catalog_frame_def catalog_columns_def catalog_row_def
  connected_init_def init_def

lemma connect_connected:
  "connected (snd (connect c s)) = (connected s \<or> db_connect c (calls s) = None)"
  by (simp add: connect_def record_call_def split: option.splits)

lemma disconnect_connected:
  "connected (snd (disconnect c s)) = (connected s \<and> db_disconnect c (calls s) \<noteq> None)"
  by (simp add: disconnect_def record_call_def split: option.splits)

lemma connect_ok:
  "isl (fst (connect c s)) = (\<not> connected s \<and> db_connect c (calls s) \<noteq> None)"
  by (simp add: connect_def split: option.splits)

lemma disconnect_ok:
  "isl (fst (disconnect c s)) = (connected s \<and> db_disconnect c (calls s) \<noteq> None)"
  by (simp add: disconnect_def split: option.splits)

lemma run_ops_balance:
  "b = (if connected s then 1 else 0) \<Longrightarrow>
   connected (snd (run_ops c xs s)) = (balance (fst (run_ops c xs s)) b = 1)"
proof (induction xs arbitrary: s b)
  case Nil
  then show ?case by simp
next
  case (Cons x xs)
  obtain r s1 where st: "step c x s = (r, s1)" by (cases "step c x s")
  obtain rs s2 where ru: "run_ops c xs s1 = (rs, s2)" by (cases "run_ops c xs s1")
  let ?b1 = "if isl r = False
             then (case x of OpConnect \<Rightarrow> min 1 (b + 1) | OpDisconnect \<Rightarrow> max 0 (b - 1))
             else b"
  have r: "isl r = isl (fst (step c x s))" and s1: "connected s1 = connected (snd (step c x s))"
    using st by simp_all
  have "?b1 = (if connected s1 then 1 else 0)"
  proof (cases x)
    case OpConnect
    then show ?thesis
      using Cons.prems r s1
      by (auto simp: step_def connect_connected connect_ok)
  next
    case OpDisconnect
    then show ?thesis
      using Cons.prems r s1
      by (auto simp: step_def disconnect_connected disconnect_ok)
  qed
  from Cons.IH [OF this] show ?case
    using st ru by simp
qed

text \<open>What each step does to the cache, the flag and the trace.\<close>

lemma connect_Inr_connected: "connect c s = (Inr u, s1) \<Longrightarrow> connected s1"
  by (auto simp: connect_def record_call_def split: if_splits option.splits)

lemma connect_calls:
  "\<exists>new. calls (snd (connect c s)) = calls s @ new \<and> DbDisconnect \<notin> set new"
  by (simp add: connect_def record_call_def split: option.splits)

lemma generate_create_table_statements_cached:
  "all_table_queries s = Some q \<Longrightarrow> generate_create_table_statements c tn s = (Inr q, s)"
  by (simp add: generate_create_table_statements_def)

lemma generate_create_table_statements_stores:
  "generate_create_table_statements c tn s = (Inr q, s1) \<Longrightarrow> all_table_queries s1 = Some q"
  by (auto simp: generate_create_table_statements_def Let_def record_call_def
           split: option.splits sum.splits)

lemma generate_create_table_statements_calls:
  "calls (snd (generate_create_table_statements c tn s)) =
     (case all_table_queries s of
        None \<Rightarrow> calls s @ [DbExecuteQuery (column_info_query tn)]
      | Some q \<Rightarrow> calls s)"
  by (simp add: generate_create_table_statements_def Let_def record_call_def
           split: option.splits sum.splits)

lemma generate_create_table_statements_connected:
  "connected (snd (generate_create_table_statements c tn s)) = connected s"
  by (simp add: generate_create_table_statements_def Let_def record_call_def
           split: option.splits sum.splits)

lemma generate_create_table_statements_queries_iff:
  "(calls (snd (generate_create_table_statements c tn s)) \<noteq> calls s) =
     (all_table_queries s = None)"
  by (simp add: generate_create_table_statements_calls split: option.splits)

lemma generate_sql_query_state:
  "snd (generate_sql_query c ctx q s) = record_call (LlmGenerateText ctx q) s"
  by (simp add: generate_sql_query_def Let_def split: option.splits sum.splits)

text \<open>Joining, and the filter of the catalog query.\<close>

lemma str_join_concat:
  "str_join sep (x # xs) = x @ concat (map (\<lambda>y. sep @ y) xs)"
  by (induction xs arbitrary: x) simp_all

lemma where_clause_spec: "where_clause tn = spec_filter tn"
  by (cases tn; cases "the tn")
     (simp_all add: where_clause_def spec_filter_def quoted_def str_join_concat comp_def
               del: str_join.simps)

text \<open>Grouping a catalog frame.\<close>

lemma sequence_map_Inr: "sequence (map (\<lambda>x. Inr (f x)) xs) = Inr (map f xs)"
  by (induction xs) simp_all

lemma getitem_catalog:
  "getitem catalog_columns (catalog_row (t, col, ty)) ''table_name'' = Inr t"
  "getitem catalog_columns (catalog_row (t, col, ty)) ''column_name'' = Inr col"
  "getitem catalog_columns (catalog_row (t, col, ty)) ''data_type'' = Inr ty"
  by (simp_all add: getitem_def catalog_columns_def catalog_row_def)

lemma render_row_catalog:
  "render_row catalog_columns (catalog_row x) = Inr (case x of (t, col, ty) \<Rightarrow> col @ '' '' @ ty)"
  by (cases x) (simp add: render_row_def getitem_catalog)

lemma group_rows_catalog:
  "group_rows catalog_columns (map catalog_row info) t =
     map catalog_row (filter (\<lambda>(t', col, ty). t' = t) info)"
  unfolding group_rows_def
  by (induction info) (auto simp: getitem_catalog)

lemma apply_group_catalog:
  "apply_group catalog_columns (map catalog_row info) t =
     Inr (t, str_join '', '' (map (\<lambda>(t', col, ty). col @ '' '' @ ty)
                                  (filter (\<lambda>(t', col, ty). t' = t) info)))"
  by (simp add: apply_group_def group_rows_catalog comp_def render_row_catalog sequence_map_Inr)

lemma keys_catalog:
  "sequence (map (\<lambda>r. getitem catalog_columns r ''table_name'') (map catalog_row info)) =
     Inr (map fst info)"
proof -
  have "getitem catalog_columns (catalog_row x) ''table_name'' = Inr (fst x)" for x
    by (cases x) (simp add: getitem_catalog)
  then show ?thesis
    by (simp add: comp_def sequence_map_Inr)
qed

lemma grouped_columns_catalog:
  assumes "info \<noteq> []"
  shows "grouped_columns (catalog_frame info) =
     Inr (map (\<lambda>t. (t, str_join '', '' (map (\<lambda>(t', col, ty). col @ '' '' @ ty)
                                            (filter (\<lambda>(t', col, ty). t' = t) info))))
              (sort (remdups (map fst info))))"
proof -
  have c: "''table_name'' \<in> set (columns (catalog_frame info))"
    by (simp add: catalog_frame_def catalog_columns_def)
  have r: "rows (catalog_frame info) \<noteq> []"
    using assms by (simp add: catalog_frame_def)
  have k: "sequence (map (\<lambda>r. getitem (columns (catalog_frame info)) r ''table_name'')
                         (rows (catalog_frame info))) = Inr (map fst info)"
    by (simp add: catalog_frame_def keys_catalog del: map_map)
  have "apply_group (columns (catalog_frame info)) (rows (catalog_frame info)) =
        (\<lambda>t. Inr (t, str_join '', '' (map (\<lambda>(t', col, ty). col @ '' '' @ ty)
                                            (filter (\<lambda>(t', col, ty). t' = t) info))))"
    by (rule ext) (simp add: catalog_frame_def apply_group_catalog)
  then have a: "sequence (map (apply_group (columns (catalog_frame info))
                                 (rows (catalog_frame info))) ts) =
        Inr (map (\<lambda>t. (t, str_join '', '' (map (\<lambda>(t', col, ty). col @ '' '' @ ty)
                                            (filter (\<lambda>(t', col, ty). t' = t) info)))) ts)" for ts
    by (simp add: sequence_map_Inr)
  show ?thesis
    unfolding grouped_columns_def using c r by (simp add: k a)
qed

text \<open>\<^const>\<open>strip\<close> cuts a string into blanks, the result, and blanks.\<close>

lemma strip_next_line_no_break_space:
  "strip ([CHR 0xA0] @ ''SELECT 1;'' @ [CHR 0x85]) = ''SELECT 1;''"
  by (simp add: strip_def isspace_def)

lemma rev_dropWhile_takeWhile:
  "rev (dropWhile P (rev xs)) @ rev (takeWhile P (rev xs)) = xs"
proof -
  have "rev (takeWhile P (rev xs) @ dropWhile P (rev xs)) = xs"
    by (simp only: takeWhile_dropWhile_id rev_rev_ident)
  then show ?thesis
    by (simp only: rev_append)
qed

lemma strip_middle:
  "dropWhile isspace s = strip s @ rev (takeWhile isspace (rev (dropWhile isspace s)))"
  unfolding strip_def by (simp only: rev_dropWhile_takeWhile)

lemma strip_decompose:
  "\<exists>l r. s = l @ strip s @ r \<and> list_all isspace l \<and> list_all isspace r"
proof -
  let ?l = "takeWhile isspace s"
  let ?r = "rev (takeWhile isspace (rev (dropWhile isspace s)))"
  have "s = ?l @ dropWhile isspace s" by simp
  with strip_middle [of s] have 1: "s = ?l @ strip s @ ?r" by simp
  have 3: "list_all isspace ?l"
    by (simp add: list_all_iff) (meson set_takeWhileD)
  have 4: "list_all isspace ?r"
    by (simp add: list_all_iff) (meson set_takeWhileD)
  from 1 3 4 show ?thesis by blast
qed

lemma strip_ends:
  assumes "strip s \<noteq> []"
  shows "\<not> isspace (hd (strip s))" and "\<not> isspace (last (strip s))"
proof -
  let ?m = "dropWhile isspace s"
  have ne: "dropWhile isspace (rev ?m) \<noteq> []"
    using assms by (simp add: strip_def)
  then have "\<not> isspace (hd (dropWhile isspace (rev ?m)))"
    by (rule hd_dropWhile)
  then show "\<not> isspace (last (strip s))"
    using ne by (simp add: strip_def last_rev)
  have m: "?m = strip s @ rev (takeWhile isspace (rev ?m))"
    by (rule strip_middle)
  then have "?m \<noteq> []" using assms by (metis append_is_Nil_conv)
  then have "\<not> isspace (hd ?m)" by (rule hd_dropWhile)
  moreover have "hd ?m = hd (strip s)"
    using m assms by (metis hd_append2)
  ultimately show "\<not> isspace (hd (strip s))" by simp
qed

subsection \<open>The connection state machine\<close>

text \<open>
  C3.  For every sequence of \<^verbatim>\<open>connect()\<close> and \<^verbatim>\<open>disconnect()\<close> calls on a
  freshly built object, the \<^verbatim>\<open>connected\<close> flag after the sequence says
  whether the clamped running balance of successful connects and successful
  disconnects is one.  A \<^verbatim>\<open>connect()\<close> on a connected object and a
  \<^verbatim>\<open>disconnect()\<close> on a disconnected one return normally and leave the whole
  state as it was, the trace of collaborator calls included: the collaborator
  is not invoked.
\<close>

theorem connect_disconnect_balance:
  "connected (snd (run_ops c xs init)) = (balance (fst (run_ops c xs init)) 0 = 1)
   \<and> (connected s \<longrightarrow> connect c s = (Inr (), s))
   \<and> (\<not> connected s \<longrightarrow> disconnect c s = (Inr (), s))"
proof -
  have "connected (snd (run_ops c xs init)) = (balance (fst (run_ops c xs init)) 0 = 1)"
    by (rule run_ops_balance) (simp add: init_def)
  then show ?thesis
    by (simp add: connect_def disconnect_def)
qed

theorem connect_disconnect_balance_witness:
  "connected (snd (run_ops demo [OpConnect, OpConnect, OpDisconnect, OpDisconnect, OpConnect] init))
   \<and> balance (fst (run_ops demo [OpConnect, OpConnect, OpDisconnect, OpDisconnect, OpConnect] init)) 0 = 1
   \<and> connected connected_init \<and> connect demo connected_init = (Inr (), connected_init)
   \<and> \<not> connected init \<and> disconnect demo init = (Inr (), init)"
  using connect_disconnect_balance
      [of demo "[OpConnect, OpConnect, OpDisconnect, OpDisconnect, OpConnect]" connected_init]
    connect_disconnect_balance
      [of demo "[OpConnect, OpConnect, OpDisconnect, OpDisconnect, OpConnect]" init]
  by (simp add: demo_defs model_defs)

text \<open>
  C4.  When the connector's \<^verbatim>\<open>connect\<close> raises, \<^verbatim>\<open>connect()\<close> raises the
  fixed \<^verbatim>\<open>ConnectionError("Failed to connect to the database.")\<close>, whatever the
  connector raised, and the object differs from the one before the call only
  in the trace: the flag is unchanged.  Likewise for \<^verbatim>\<open>disconnect()\<close>.  The
  connector is called only on a disconnected (respectively connected) object.
\<close>

theorem connect_disconnect_failure:
  "(\<not> connected s \<and> db_connect c (calls s) = Some e \<longrightarrow>
      connect c s = (Inl (Exn ConnectionError ''Failed to connect to the database.''),
                     record_call DbConnect s)
      \<and> connected (snd (connect c s)) = connected s)
   \<and> (connected s \<and> db_disconnect c (calls s) = Some e \<longrightarrow>
      disconnect c s = (Inl (Exn ConnectionError ''Failed to disconnect from the database.''),
                        record_call DbDisconnect s)
      \<and> connected (snd (disconnect c s)) = connected s)"
  by (simp add: connect_def disconnect_def record_call_def)

theorem connect_disconnect_failure_witness:
  "\<not> connected init \<and> db_connect demo_no_connect (calls init) = Some refused
   \<and> connect demo_no_connect init =
       (Inl (Exn ConnectionError ''Failed to connect to the database.''), record_call DbConnect init)
   \<and> connected (snd (connect demo_no_connect init)) = connected init
   \<and> connected connected_init \<and> db_disconnect demo_no_disconnect (calls connected_init) = Some refused
   \<and> disconnect demo_no_disconnect connected_init =
       (Inl (Exn ConnectionError ''Failed to disconnect from the database.''),
        record_call DbDisconnect connected_init)
   \<and> connected (snd (disconnect demo_no_disconnect connected_init)) = connected connected_init"
  using connect_disconnect_failure [of init demo_no_connect refused]
    connect_disconnect_failure [of connected_init demo_no_disconnect refused]
  by (simp add: demo_defs record_call_def)

subsection \<open>The schema context\<close>

text \<open>
  C5.  When the cache is empty and the connector answers the catalog query with
  the rows \<open>info\<close>, at least one, the build returns one statement per distinct
  table name, each of the form
  \<^verbatim>\<open>CREATE TABLE <table_name> (<col1> <type1>, <col2> <type2>, ...);\<close>
  with that table's columns joined by a comma and a space in catalog row
  order.  For the rows \<^verbatim>\<open>(users, id, integer), (users, name, text)\<close> the result is
  exactly \<^verbatim>\<open>CREATE TABLE users (id integer, name text);\<close>.
\<close>

theorem create_table_rendering:
  "all_table_queries s = None \<and>
   db_execute_query c (calls s) (column_info_query tn) = Inr (catalog_frame info) \<and>
   info \<noteq> [] \<longrightarrow>
     fst (generate_create_table_statements c tn s) =
       Inr (map (spec_statement info) (sort (remdups (map fst info))))
     \<and> (info = [(''users'', ''id'', ''integer''), (''users'', ''name'', ''text'')] \<longrightarrow>
          fst (generate_create_table_statements c tn s) =
            Inr [''CREATE TABLE users (id integer, name text);''])"
proof (intro impI, elim conjE)
  assume a: "all_table_queries s = None"
    "db_execute_query c (calls s) (column_info_query tn) = Inr (catalog_frame info)"
    and ne: "info \<noteq> []"
  have g: "fst (generate_create_table_statements c tn s) =
       Inr (map (spec_statement info) (sort (remdups (map fst info))))"
    using a
    by (simp add: generate_create_table_statements_def Let_def grouped_columns_catalog [OF ne]
          create_table_def spec_statement_def comp_def)
  have "map (spec_statement [(''users'', ''id'', ''integer''), (''users'', ''name'', ''text'')])
          (sort (remdups (map fst [(''users'', ''id'', ''integer''), (''users'', ''name'', ''text'')])))
        = [''CREATE TABLE users (id integer, name text);'']"
    by (simp add: spec_statement_def)
  then have "info = [(''users'', ''id'', ''integer''), (''users'', ''name'', ''text'')] \<Longrightarrow>
          map (spec_statement info) (sort (remdups (map fst info))) =
            [''CREATE TABLE users (id integer, name text);'']"
    by simp
  with g show "fst (generate_create_table_statements c tn s) =
       Inr (map (spec_statement info) (sort (remdups (map fst info))))
     \<and> (info = [(''users'', ''id'', ''integer''), (''users'', ''name'', ''text'')] \<longrightarrow>
          fst (generate_create_table_statements c tn s) =
            Inr [''CREATE TABLE users (id integer, name text);''])"
    by auto
qed

theorem create_table_rendering_witness:
  "all_table_queries connected_init = None
   \<and> db_execute_query demo (calls connected_init) (column_info_query None) =
       Inr (catalog_frame [(''users'', ''id'', ''integer''), (''users'', ''name'', ''text'')])
   \<and> [(''users'', ''id'', ''integer''), (''users'', ''name'', ''text'')] \<noteq> []
   \<and> fst (generate_create_table_statements demo None connected_init) =
       Inr [''CREATE TABLE users (id integer, name text);'']"
  using create_table_rendering [of connected_init demo None
          "[(''users'', ''id'', ''integer''), (''users'', ''name'', ''text'')]"]
  by (simp add: demo_def connected_init_def users_info_def spec_statement_def)

text \<open>
  C7.  With an empty cache the build makes exactly one call on the connector:
  \<^verbatim>\<open>execute_query\<close> with a query that selects \<^verbatim>\<open>table_name, column_name,
  data_type\<close> from \<^verbatim>\<open>information_schema.columns\<close> under the filter
  \<^verbatim>\<open>WHERE table_name IN ('t1','t2',...)\<close> listing the given names in order when
  \<^verbatim>\<open>table_names\<close> is a non-empty list, and under
  \<^verbatim>\<open>WHERE table_schema = 'public'\<close> when it is \<^verbatim>\<open>None\<close> or empty.
\<close>

theorem catalog_query_text:
  "all_table_queries s = None \<Longrightarrow>
   calls (snd (generate_create_table_statements c tn s)) =
     calls s @ [DbExecuteQuery
       (''\<newline>        SELECT table_name, column_name, data_type'' @
        ''\<newline>        FROM information_schema.columns'' @
        ''\<newline>        '' @ spec_filter tn @ '';\<newline>        '')]"
  by (simp add: generate_create_table_statements_calls column_info_query_def where_clause_spec)

theorem catalog_query_text_witness:
  "all_table_queries init = None
   \<and> calls (snd (generate_create_table_statements demo (Some [''users'', ''orders'']) init)) =
       [DbExecuteQuery
         (''\<newline>        SELECT table_name, column_name, data_type'' @
          ''\<newline>        FROM information_schema.columns'' @
          ''\<newline>        WHERE table_name IN ('' @ [CHR 0x27] @ ''users'' @ [CHR 0x27] @ '','' @
             [CHR 0x27] @ ''orders'' @ [CHR 0x27] @ '');\<newline>        '')]
   \<and> calls (snd (generate_create_table_statements demo (Some []) init)) =
       [DbExecuteQuery
         (''\<newline>        SELECT table_name, column_name, data_type'' @
          ''\<newline>        FROM information_schema.columns'' @
          ''\<newline>        WHERE table_schema = '' @ [CHR 0x27] @ ''public'' @ [CHR 0x27] @
          '';\<newline>        '')]
   \<and> calls (snd (generate_create_table_statements demo None init)) =
       [DbExecuteQuery
         (''\<newline>        SELECT table_name, column_name, data_type'' @
          ''\<newline>        FROM information_schema.columns'' @
          ''\<newline>        WHERE table_schema = '' @ [CHR 0x27] @ ''public'' @ [CHR 0x27] @
          '';\<newline>        '')]"
proof -
  have h: "all_table_queries init = None" by (simp add: init_def)
  show ?thesis
    using h catalog_query_text [OF h, of demo "Some [''users'', ''orders'']"]
      catalog_query_text [OF h, of demo "Some []"]
      catalog_query_text [OF h, of demo None]
    by (simp add: spec_filter_def quoted_def init_def)
qed

text \<open>
  C6.  After a successful build, a second build returns the same statements
  and leaves the object, its trace included, as it was: the catalog is not
  queried again, whatever the table-name filters of the two calls are.
\<close>

theorem schema_context_cached:
  "generate_create_table_statements c tn1 s = (Inr q, s1) \<Longrightarrow>
   generate_create_table_statements c tn2 s1 = (Inr q, s1)"
  by (rule generate_create_table_statements_cached)
     (rule generate_create_table_statements_stores)

theorem schema_context_cached_witness:
  "generate_create_table_statements demo None connected_init =
     (Inr [''CREATE TABLE users (id integer, name text);''],
      \<lparr>connected = True,
       all_table_queries = Some [''CREATE TABLE users (id integer, name text);''],
       calls = [DbConnect, DbExecuteQuery (column_info_query None)]\<rparr>)
   \<and> generate_create_table_statements demo (Some [''orders''])
       \<lparr>connected = True,
        all_table_queries = Some [''CREATE TABLE users (id integer, name text);''],
        calls = [DbConnect, DbExecuteQuery (column_info_query None)]\<rparr> =
     (Inr [''CREATE TABLE users (id integer, name text);''],
      \<lparr>connected = True,
       all_table_queries = Some [''CREATE TABLE users (id integer, name text);''],
       calls = [DbConnect, DbExecuteQuery (column_info_query None)]\<rparr>)"
proof -
  have h: "generate_create_table_statements demo None connected_init =
     (Inr [''CREATE TABLE users (id integer, name text);''],
      \<lparr>connected = True,
       all_table_queries = Some [''CREATE TABLE users (id integer, name text);''],
       calls = [DbConnect, DbExecuteQuery (column_info_query None)]\<rparr>)"
    by (simp add: demo_defs model_defs)
  show ?thesis
    using h schema_context_cached [OF h, of "Some [''orders'']"] by simp
qed

text \<open>
  C10.  The cache is tested against \<^verbatim>\<open>None\<close>, and a catalog query that
  succeeds with zero rows is meant to store the empty list.  Evaluated on a
  connected object with an empty cache and a connector that answers the catalog
  query with a frame of the three columns and no rows, the build does not store
  the empty list: it stores one statement per column of the frame, made of the
  column label and the text of an empty \<^verbatim>\<open>Series\<close>.  A second build, with
  another filter, returns these statements from the cache without a query.
\<close>

theorem zero_rows_cache_column_statements:
  "generate_create_table_statements demo_empty_catalog (Some [''missing'']) connected_init =
     (Inr [''CREATE TABLE table_name (Series([], Name: table_name, dtype: object));'',
           ''CREATE TABLE column_name (Series([], Name: column_name, dtype: object));'',
           ''CREATE TABLE data_type (Series([], Name: data_type, dtype: object));''],
      missing_cached)
   \<and> all_table_queries missing_cached \<noteq> Some []
   \<and> generate_create_table_statements demo_empty_catalog None missing_cached =
     (Inr [''CREATE TABLE table_name (Series([], Name: table_name, dtype: object));'',
           ''CREATE TABLE column_name (Series([], Name: column_name, dtype: object));'',
           ''CREATE TABLE data_type (Series([], Name: data_type, dtype: object));''],
      missing_cached)"
  by (simp add: demo_defs model_defs missing_cached_def)

subsection \<open>Query generation and ask\<close>

text \<open>
  C1.  The source means to raise \<^verbatim>\<open>ValueError("LLM failed to generate a SQL
  query.")\<close> when the language model returns an empty text.  Evaluated on a
  fresh object with a model that returns the empty string, \<^verbatim>\<open>ask\<close> surfaces
  the \<^verbatim>\<open>NameError\<close> of the logging line instead; the trace shows the connect,
  the catalog query and the generation, and no execution of a generated
  statement.
\<close>

theorem ask_empty_generation_raises_name_error:
  "ask demo_llm_empty (Some ''how many users'') None init =
     (Inl (Exn Exception ''Error in 'ask' method: name 'e' is not defined''),
      \<lparr>connected = True,
       all_table_queries = Some [''CREATE TABLE users (id integer, name text);''],
       calls = [DbConnect, DbExecuteQuery (column_info_query None),
                LlmGenerateText ''CREATE TABLE users (id integer, name text);''
                  (Some ''how many users'')]\<rparr>)"
  by (simp add: demo_defs model_defs)

text \<open>
  C9.  After a successful connect and schema-context build, when the language
  model returns a non-empty string, \<^verbatim>\<open>ask\<close> calls the model with the joined
  statements and the question and then \<^verbatim>\<open>execute_query\<close> with the stripped
  string.  The stripped string is the returned one without a leading and a
  trailing run of whitespace, and it neither starts nor ends with whitespace;
  whitespace is every character \<^verbatim>\<open>str.strip()\<close> removes, the next line control
  and the no-break space included.
\<close>

theorem ask_executes_stripped_text:
  "connect c s = (Inr (), s1) \<and>
   generate_create_table_statements c tn s1 = (Inr stmts, s2) \<and>
   llm_generate_text c (calls s2) (str_join '' '' stmts) q = Inr (Some generated) \<and> generated \<noteq> [] \<longrightarrow>
     calls (snd (ask c q tn s)) =
       calls s2 @ [LlmGenerateText (str_join '' '' stmts) q, DbExecuteQuery (strip generated)]
     \<and> (\<exists>l r. generated = l @ strip generated @ r \<and> list_all isspace l \<and> list_all isspace r)
     \<and> (strip generated \<noteq> [] \<longrightarrow> \<not> isspace (hd (strip generated)) \<and> \<not> isspace (last (strip generated)))"
proof (intro impI, elim conjE)
  assume a: "connect c s = (Inr (), s1)"
    "generate_create_table_statements c tn s1 = (Inr stmts, s2)"
    "llm_generate_text c (calls s2) (str_join '' '' stmts) q = Inr (Some generated)" "generated \<noteq> []"
  have "calls (snd (ask c q tn s)) =
       calls s2 @ [LlmGenerateText (str_join '' '' stmts) q, DbExecuteQuery (strip generated)]"
    using a by (simp add: ask_def generate_sql_query_def record_call_def Let_def split: sum.splits)
  then show "calls (snd (ask c q tn s)) =
       calls s2 @ [LlmGenerateText (str_join '' '' stmts) q, DbExecuteQuery (strip generated)]
     \<and> (\<exists>l r. generated = l @ strip generated @ r \<and> list_all isspace l \<and> list_all isspace r)
     \<and> (strip generated \<noteq> [] \<longrightarrow> \<not> isspace (hd (strip generated)) \<and> \<not> isspace (last (strip generated)))"
    using strip_decompose [of generated] strip_ends [of generated] by blast
qed

theorem ask_executes_stripped_text_witness:
  "connect demo init = (Inr (), connected_init)
   \<and> generate_create_table_statements demo None connected_init =
       (Inr [''CREATE TABLE users (id integer, name text);''],
        \<lparr>connected = True,
         all_table_queries = Some [''CREATE TABLE users (id integer, name text);''],
         calls = [DbConnect, DbExecuteQuery (column_info_query None)]\<rparr>)
   \<and> llm_generate_text demo [DbConnect, DbExecuteQuery (column_info_query None)]
        ''CREATE TABLE users (id integer, name text);'' (Some ''how many users'') =
       Inr (Some ''  SELECT COUNT(*) FROM users; '')
   \<and> strip ''  SELECT COUNT(*) FROM users; '' = ''SELECT COUNT(*) FROM users;''
   \<and> calls (snd (ask demo (Some ''how many users'') None init)) =
       [DbConnect, DbExecuteQuery (column_info_query None),
        LlmGenerateText ''CREATE TABLE users (id integer, name text);'' (Some ''how many users''),
        DbExecuteQuery ''SELECT COUNT(*) FROM users;'']
   \<and> \<not> isspace (hd (strip ''  SELECT COUNT(*) FROM users; ''))
   \<and> \<not> isspace (last (strip ''  SELECT COUNT(*) FROM users; ''))"
proof -
  have 1: "connect demo init = (Inr (), connected_init)"
    by (simp add: demo_defs model_defs)
  have 2: "generate_create_table_statements demo None connected_init =
       (Inr [''CREATE TABLE users (id integer, name text);''],
        \<lparr>connected = True,
         all_table_queries = Some [''CREATE TABLE users (id integer, name text);''],
         calls = [DbConnect, DbExecuteQuery (column_info_query None)]\<rparr>)"
    by (simp add: demo_defs model_defs)
  have 3: "strip ''  SELECT COUNT(*) FROM users; '' = ''SELECT COUNT(*) FROM users;''"
    by (simp add: strip_def isspace_def)
  show ?thesis
    using 1 2 3
      ask_executes_stripped_text [of demo init connected_init None
        "[''CREATE TABLE users (id integer, name text);'']"
        "\<lparr>connected = True,
         all_table_queries = Some [''CREATE TABLE users (id integer, name text);''],
         calls = [DbConnect, DbExecuteQuery (column_info_query None)]\<rparr>"
        "Some ''how many users''" "''  SELECT COUNT(*) FROM users; ''"]
    by (simp add: demo_def)
qed

text \<open>
  C8.  When \<^verbatim>\<open>execute_query\<close> raises on the generated statement, after a
  successful connect, schema-context build and generation, \<^verbatim>\<open>ask\<close> raises an
  exception whose message is \<^verbatim>\<open>Error in 'ask' method: \<close> followed by the
  connector's message, the object is still connected, and none of the calls
  \<^verbatim>\<open>ask\<close> made on the connector is a disconnect.
\<close>

theorem ask_execute_failure_stays_connected:
  "connect c s = (Inr (), s1) \<and>
   generate_create_table_statements c tn s1 = (Inr stmts, s2) \<and>
   generate_sql_query c (str_join '' '' stmts) q s2 = (Inr sql, s3) \<and>
   db_execute_query c (calls s3) sql = Inl e \<longrightarrow>
     fst (ask c q tn s) = Inl (Exn Exception (''Error in 'ask' method: '' @ message e))
     \<and> connected (snd (ask c q tn s))
     \<and> (\<exists>new. calls (snd (ask c q tn s)) = calls s @ new \<and> DbDisconnect \<notin> set new)"
proof (intro impI, elim conjE)
  assume a: "connect c s = (Inr (), s1)"
    "generate_create_table_statements c tn s1 = (Inr stmts, s2)"
    "generate_sql_query c (str_join '' '' stmts) q s2 = (Inr sql, s3)"
    "db_execute_query c (calls s3) sql = Inl e"
  have r: "ask c q tn s = (Inl (ask_error e), record_call (DbExecuteQuery sql) s3)"
    using a by (simp add: ask_def)
  have s3: "s3 = record_call (LlmGenerateText (str_join '' '' stmts) q) s2"
    using generate_sql_query_state [of c "str_join '' '' stmts" q s2] a(3) by simp
  have "connected s1" using a(1) by (rule connect_Inr_connected)
  then have "connected s2"
    using generate_create_table_statements_connected [of c tn s1] a(2) by simp
  then have c3: "connected (record_call (DbExecuteQuery sql) s3)"
    by (simp add: s3 record_call_def)
  obtain n1 where n1: "calls s1 = calls s @ n1" "DbDisconnect \<notin> set n1"
    using connect_calls [of c s] a(1) by auto
  have "\<exists>n2. calls s2 = calls s1 @ n2 \<and> DbDisconnect \<notin> set n2"
    using generate_create_table_statements_calls [of c tn s1] a(2)
    by (cases "all_table_queries s1") simp_all
  then obtain n2 where n2: "calls s2 = calls s1 @ n2" "DbDisconnect \<notin> set n2" by blast
  have "calls (record_call (DbExecuteQuery sql) s3) =
          calls s @ (n1 @ n2 @ [LlmGenerateText (str_join '' '' stmts) q, DbExecuteQuery sql])"
    by (simp add: s3 record_call_def n1 n2)
  moreover have "DbDisconnect \<notin>
      set (n1 @ n2 @ [LlmGenerateText (str_join '' '' stmts) q, DbExecuteQuery sql])"
    using n1 n2 by simp
  ultimately have "\<exists>new. calls (record_call (DbExecuteQuery sql) s3) = calls s @ new
      \<and> DbDisconnect \<notin> set new" by blast
  with r c3 show "fst (ask c q tn s) = Inl (Exn Exception (''Error in 'ask' method: '' @ message e))
     \<and> connected (snd (ask c q tn s))
     \<and> (\<exists>new. calls (snd (ask c q tn s)) = calls s @ new \<and> DbDisconnect \<notin> set new)"
    by (simp add: ask_error_def)
qed

theorem ask_execute_failure_stays_connected_witness:
  "connect demo_bad_sql init = (Inr (), connected_init)
   \<and> generate_create_table_statements demo_bad_sql None connected_init =
       (Inr [''CREATE TABLE users (id integer, name text);''], users_cached)
   \<and> generate_sql_query demo_bad_sql ''CREATE TABLE users (id integer, name text);''
        (Some ''how many users'') users_cached = (Inr ''SELECT COUNT(*) FROM users;'', users_asked)
   \<and> db_execute_query demo_bad_sql (calls users_asked) ''SELECT COUNT(*) FROM users;'' =
       Inl (Exn (Other ''SyntaxError'') ''syntax error'')
   \<and> fst (ask demo_bad_sql (Some ''how many users'') None init) =
       Inl (Exn Exception ''Error in 'ask' method: syntax error'')
   \<and> connected (snd (ask demo_bad_sql (Some ''how many users'') None init))"
proof -
  have 1: "connect demo_bad_sql init = (Inr (), connected_init)"
    by (simp add: demo_defs model_defs)
  have 2: "generate_create_table_statements demo_bad_sql None connected_init =
       (Inr [''CREATE TABLE users (id integer, name text);''], users_cached)"
    by (simp add: demo_defs model_defs users_cached_def)
  have 3: "generate_sql_query demo_bad_sql (str_join '' '' [''CREATE TABLE users (id integer, name text);''])
        (Some ''how many users'') users_cached = (Inr ''SELECT COUNT(*) FROM users;'', users_asked)"
    by (simp add: demo_defs model_defs users_cached_def users_asked_def)
  have 4: "db_execute_query demo_bad_sql (calls users_asked) ''SELECT COUNT(*) FROM users;'' =
       Inl (Exn (Other ''SyntaxError'') ''syntax error'')"
    by (simp add: demo_defs model_defs)
  show ?thesis
    using 1 2 3 4
      ask_execute_failure_stays_connected [of demo_bad_sql init connected_init None
        "[''CREATE TABLE users (id integer, name text);'']" users_cached
        "Some ''how many users''" "''SELECT COUNT(*) FROM users;''" users_asked
        "Exn (Other ''SyntaxError'') ''syntax error''"]
    by simp
qed

text \<open>
  C2.  Whichever step of \<^verbatim>\<open>ask\<close> raises (connect, schema-context build,
  generation, execution), \<^verbatim>\<open>ask\<close> raises one \<^verbatim>\<open>Exception\<close> whose message is
  exactly \<^verbatim>\<open>Error in 'ask' method: \<close> followed by the message of the exception
  that step raised; and every exception \<^verbatim>\<open>ask\<close> raises is an \<^verbatim>\<open>Exception\<close>
  with a message that starts so.
\<close>

theorem ask_failure_message:
  "(connect c s = (Inl e, s1) \<longrightarrow>
      ask c q tn s = (Inl (Exn Exception (''Error in 'ask' method: '' @ message e)), s1))
   \<and> (connect c s = (Inr (), s1) \<and>
      generate_create_table_statements c tn s1 = (Inl e, s2) \<longrightarrow>
      ask c q tn s = (Inl (Exn Exception (''Error in 'ask' method: '' @ message e)), s2))
   \<and> (connect c s = (Inr (), s1) \<and>
      generate_create_table_statements c tn s1 = (Inr stmts, s2) \<and>
      generate_sql_query c (str_join '' '' stmts) q s2 = (Inl e, s3) \<longrightarrow>
      ask c q tn s = (Inl (Exn Exception (''Error in 'ask' method: '' @ message e)), s3))
   \<and> (connect c s = (Inr (), s1) \<and>
      generate_create_table_statements c tn s1 = (Inr stmts, s2) \<and>
      generate_sql_query c (str_join '' '' stmts) q s2 = (Inr sql, s3) \<and>
      db_execute_query c (calls s3) sql = Inl e \<longrightarrow>
      ask c q tn s = (Inl (Exn Exception (''Error in 'ask' method: '' @ message e)),
                      record_call (DbExecuteQuery sql) s3))
   \<and> (fst (ask c q tn s) = Inl x \<longrightarrow>
      kind x = Exception \<and> (\<exists>m. message x = ''Error in 'ask' method: '' @ m))"
  by (auto simp: ask_def ask_error_def Let_def split: prod.splits sum.splits)

theorem ask_failure_message_witness:
  "ask demo_no_connect (Some ''how many users'') None init =
     (Inl (Exn Exception ''Error in 'ask' method: Failed to connect to the database.''),
      record_call DbConnect init)
   \<and> ask demo_no_catalog (Some ''how many users'') None init =
     (Inl (Exn Exception ''Error in 'ask' method: Error generating CREATE TABLE statements.''),
      record_call (DbExecuteQuery (column_info_query None)) connected_init)
   \<and> ask demo_llm_down (Some ''how many users'') None init =
     (Inl (Exn Exception ''Error in 'ask' method: timed out''), users_asked)
   \<and> ask demo_bad_sql (Some ''how many users'') None init =
     (Inl (Exn Exception ''Error in 'ask' method: syntax error''),
      record_call (DbExecuteQuery ''SELECT COUNT(*) FROM users;'') users_asked)
   \<and> fst (ask demo_bad_sql (Some ''how many users'') None init) =
       Inl (Exn Exception ''Error in 'ask' method: syntax error'')
   \<and> kind (Exn Exception ''Error in 'ask' method: syntax error'') = Exception"
proof -
  have 1: "connect demo_no_connect init =
      (Inl (Exn ConnectionError ''Failed to connect to the database.''), record_call DbConnect init)"
    by (simp add: demo_defs model_defs)
  have 2: "connect demo_no_catalog init = (Inr (), connected_init)"
    "generate_create_table_statements demo_no_catalog None connected_init =
       (Inl (Exn ValueError ''Error generating CREATE TABLE statements.''),
        record_call (DbExecuteQuery (column_info_query None)) connected_init)"
    by (simp_all add: demo_defs model_defs)
  have 3: "connect demo_llm_down init = (Inr (), connected_init)"
    "generate_create_table_statements demo_llm_down None connected_init =
       (Inr [''CREATE TABLE users (id integer, name text);''], users_cached)"
    "generate_sql_query demo_llm_down
       (str_join '' '' [''CREATE TABLE users (id integer, name text);''])
       (Some ''how many users'') users_cached =
       (Inl (Exn (Other ''Timeout'') ''timed out''), users_asked)"
    by (simp_all add: demo_defs model_defs users_cached_def users_asked_def)
  have 4: "connect demo_bad_sql init = (Inr (), connected_init)"
    "generate_create_table_statements demo_bad_sql None connected_init =
       (Inr [''CREATE TABLE users (id integer, name text);''], users_cached)"
    "generate_sql_query demo_bad_sql
       (str_join '' '' [''CREATE TABLE users (id integer, name text);''])
       (Some ''how many users'') users_cached = (Inr ''SELECT COUNT(*) FROM users;'', users_asked)"
    "db_execute_query demo_bad_sql (calls users_asked) ''SELECT COUNT(*) FROM users;'' =
       Inl (Exn (Other ''SyntaxError'') ''syntax error'')"
    by (simp_all add: demo_defs model_defs users_cached_def users_asked_def)
  show ?thesis
    using 1 2 3 4
      ask_failure_message [of demo_no_connect init
        "Exn ConnectionError ''Failed to connect to the database.''" "record_call DbConnect init"
        "Some ''how many users''" None]
      ask_failure_message [of demo_no_catalog init
        "Exn ValueError ''Error generating CREATE TABLE statements.''" connected_init
        "Some ''how many users''" None
        "record_call (DbExecuteQuery (column_info_query None)) connected_init"]
      ask_failure_message [of demo_llm_down init "Exn (Other ''Timeout'') ''timed out''"
        connected_init "Some ''how many users''" None users_cached
        "[''CREATE TABLE users (id integer, name text);'']" users_asked]
      ask_failure_message [of demo_bad_sql init "Exn (Other ''SyntaxError'') ''syntax error''"
        connected_init "Some ''how many users''" None users_cached
        "[''CREATE TABLE users (id integer, name text);'']" users_asked
        "''SELECT COUNT(*) FROM users;''"
        "Exn Exception ''Error in 'ask' method: syntax error''"]
    by simp
qed

end
